theory Spec2Isabelle
  imports Main
begin

section \<open>Python values used by \<^verbatim>\<open>systemrdl/rdltypes/user_struct.py\<close>\<close>

text \<open>
  The exceptions the module raises, each with the message it is created with.
  \<open>KeyError\<close> is what a dictionary subscript raises on a missing key.
\<close>

datatype error =
    TypeError string
  | ValueError string
  | AttributeError string
  | KeyError string

text \<open>
  A Python dictionary with string keys, in insertion order (\<open>OrderedDict\<close>, \<open>dict\<close>): an
  association list. A dictionary has no key twice; where a result depends on that, the
  theorem says \<open>distinct (od_keys d)\<close>.
\<close>

type_synonym 'a ordered_dict = "(string \<times> 'a) list"

definition od_keys :: "'a ordered_dict \<Rightarrow> string list" where
  "od_keys d = map fst d"

text \<open>\<open>d[k] = v\<close>: an existing key keeps its position, a new key goes to the end.\<close>

fun od_setitem :: "'a ordered_dict \<Rightarrow> string \<Rightarrow> 'a \<Rightarrow> 'a ordered_dict" where
  "od_setitem [] k v = [(k, v)]"
| "od_setitem ((k', v') # d) k v =
     (if k' = k then (k', v) # d else (k', v') # od_setitem d k v)"

text \<open>\<open>d.update(other)\<close>: \<open>d[k] = v\<close> for each item of \<open>other\<close>, in its order.\<close>

fun od_update :: "'a ordered_dict \<Rightarrow> 'a ordered_dict \<Rightarrow> 'a ordered_dict" where
  "od_update d [] = d"
| "od_update d ((k, v) # other) = od_update (od_setitem d k v) other"

text \<open>\<open>k in d\<close> and \<open>d[k]\<close>.\<close>

definition od_contains :: "'a ordered_dict \<Rightarrow> string \<Rightarrow> bool" where
  "od_contains d k = (k \<in> set (od_keys d))"

definition od_getitem :: "'a ordered_dict \<Rightarrow> string \<Rightarrow> error + 'a" where
  "od_getitem d k = (case map_of d k of None \<Rightarrow> Inl (KeyError k) | Some v \<Rightarrow> Inr v)"


section \<open>The enclosing declaration scope (\<^verbatim>\<open>comp.Component\<close>)\<close>

text \<open>
  Modelled from the spec: the module \<^verbatim>\<open>systemrdl/component.py\<close> (classes \<open>Component\<close>
  and \<open>Root\<close>, with \<open>Component.get_scope_path\<close>) is imported by the source and is not part
  of it. The specification describes the scope handle as a name, an optional parent
  scope, a test for being the compilation's root scope, and a recursive
  \<open>get_scope_path(separator)\<close> for which "scopes nest the same way structs do".
\<close>

datatype component =
  Component (is_Root: bool) (scope_name: string) (comp_parent_scope: "component option")

text \<open>
  Modelled from the spec: \<open>Component.get_scope_path\<close>, the algorithm of section 4.1 of
  the specification applied to the scope's own parent scope.
\<close>

fun comp_get_scope_path :: "component \<Rightarrow> string \<Rightarrow> string" where
  "comp_get_scope_path (Component r n None) scope_separator = ''''"
| "comp_get_scope_path (Component r n (Some p)) scope_separator =
     (if is_Root p then ''''
      else let parent_path = comp_get_scope_path p scope_separator
           in if parent_path \<noteq> '''' then parent_path @ scope_separator @ scope_name p
              else scope_name p)"


section \<open>Class objects and attribute lookup\<close>

text \<open>
  \<open>define_new\<close> creates a class at run time and \<open>_set_parent_scope\<close> assigns a class
  attribute, so classes are objects in a store, referred to by their index. A class
  object holds \<open>__name__\<close>, \<open>__bases__\<close>, \<open>__mro__\<close> and its own dictionary, of which the
  module uses three entries; \<open>None\<close> in a \<open>d_\<close> field means that the class's own dictionary
  has no such entry (\<open>Some None\<close> in \<open>d_parent_scope\<close> is the Python value \<open>None\<close>).
  \<open>'ty\<close> is the type of member types (\<open>PreElabRDLType\<close>).
\<close>

record 'ty cls_obj =
  cls_name :: string
  cls_bases :: "nat list"
  cls_mro :: "nat list"
  d_members :: "'ty ordered_dict option"
  d_is_abstract :: "bool option"
  d_parent_scope :: "component option option"

type_synonym 'ty store = "'ty cls_obj list"

definition object_id :: nat where
  "object_id = 0"

definition UserStruct_id :: nat where
  "UserStruct_id = 1"

definition object_cls :: "'ty cls_obj" where
  "object_cls =
     \<lparr>cls_name = ''object'', cls_bases = [], cls_mro = [object_id],
      d_members = None, d_is_abstract = None, d_parent_scope = None\<rparr>"

text \<open>Lines 12 and 47 to 49: \<open>class UserStruct\<close> with its three class attributes.\<close>

definition UserStruct_cls :: "'ty cls_obj" where
  "UserStruct_cls =
     \<lparr>cls_name = ''UserStruct'', cls_bases = [object_id],
      cls_mro = [UserStruct_id, object_id],
      d_members = Some [], d_is_abstract = Some True, d_parent_scope = Some None\<rparr>"

definition initial_store :: "'ty store" where
  "initial_store = [object_cls, UserStruct_cls]"

text \<open>
  Attribute lookup on a class (\<open>cls._members\<close>, and \<open>self._members\<close> on an instance whose
  own dictionary has no such entry): the first class of \<open>__mro__\<close> whose own dictionary
  has the attribute.
\<close>

fun mro_lookup :: "'ty store \<Rightarrow> ('ty cls_obj \<Rightarrow> 'a option) \<Rightarrow> nat list \<Rightarrow> 'a option" where
  "mro_lookup st attr [] = None"
| "mro_lookup st attr (c # cs) =
     (case attr (st ! c) of Some v \<Rightarrow> Some v | None \<Rightarrow> mro_lookup st attr cs)"

definition cls_getattr :: "'ty store \<Rightarrow> nat \<Rightarrow> ('ty cls_obj \<Rightarrow> 'a option) \<Rightarrow> 'a option" where
  "cls_getattr st cls attr = mro_lookup st attr (cls_mro (st ! cls))"

text \<open>\<open>type(name, (cls,), classdict)\<close> with the class dictionary of lines 88 to 91.\<close>

definition new_type :: "'ty store \<Rightarrow> string \<Rightarrow> nat \<Rightarrow> 'ty ordered_dict \<Rightarrow> bool \<Rightarrow> 'ty cls_obj" where
  "new_type st name cls m is_abstract =
     \<lparr>cls_name = name, cls_bases = [cls], cls_mro = length st # cls_mro (st ! cls),
      d_members = Some m, d_is_abstract = Some is_abstract, d_parent_scope = None\<rparr>"


section \<open>\<^verbatim>\<open>UserStruct\<close>\<close>

text \<open>A struct value: its class and the dictionary \<open>_values\<close>.\<close>

record 'v struct_value =
  inst_class :: nat
  inst_values :: "'v ordered_dict"

text \<open>Lines 51 to 64, \<open>__init__\<close>, run on a new instance of \<open>cls\<close>.\<close>

definition UserStruct_init :: "'ty store \<Rightarrow> nat \<Rightarrow> 'v ordered_dict \<Rightarrow> error + 'v struct_value" where
  "UserStruct_init st cls values =
     (case cls_getattr st cls d_is_abstract of
        None \<Rightarrow> Inl (AttributeError ''_is_abstract'')
      | Some is_abstract \<Rightarrow>
          if is_abstract
          then Inl (TypeError ''Cannot create instance of an abstract struct type'')
          else (case cls_getattr st cls d_members of
                  None \<Rightarrow> Inl (AttributeError ''_members'')
                | Some members \<Rightarrow>
                    if set (od_keys values) \<noteq> set (od_keys members)
                    then Inl (ValueError ''Cannot map 'values' to this struct'')
                    else Inr \<lparr>inst_class = cls, inst_values = values\<rparr>))"

text \<open>
  Lines 66 to 93, \<open>define_new\<close>: the result and the store afterwards. The new class is
  appended to the store and its index returned.
\<close>

definition define_new ::
  "'ty store \<Rightarrow> nat \<Rightarrow> string \<Rightarrow> 'ty ordered_dict \<Rightarrow> bool \<Rightarrow> (error + nat) \<times> 'ty store" where
  "define_new st cls name members is_abstract =
     (case cls_getattr st cls d_members of
        None \<Rightarrow> (Inl (AttributeError ''_members''), st)
      | Some m \<Rightarrow>
          if set (od_keys m) \<inter> set (od_keys members) \<noteq> {}
          then (Inl (ValueError (CHR 0x27 # ''members' contains keys that overlap with parent'')),
                st)
          else (Inr (length st),
                st @ [new_type st name cls (od_update m members) is_abstract]))"

text \<open>Lines 95 to 101, \<open>__getattr__\<close>.\<close>

definition UserStruct_getattr :: "'ty store \<Rightarrow> 'v struct_value \<Rightarrow> string \<Rightarrow> error + 'v" where
  "UserStruct_getattr st self name =
     (if name = ''__setstate__'' then Inl (AttributeError name)
      else if od_contains (inst_values self) name then od_getitem (inst_values self) name
      else Inl (AttributeError (CHR 0x27 # cls_name (st ! inst_class self)
                                 @ CHR 0x27 # '' object has no attribute '' @ CHR 0x27 # name
                                 @ [CHR 0x27])))"

text \<open>
  The docstring of the class (lines 18 and 35 to 38): a member is read as an attribute
  of the struct value, \<open>prop.foo\<close> or \<open>getattr(prop, "bar")\<close>. Python calls \<open>__getattr__\<close>
  only when the normal lookup finds nothing: the value's own dictionary (\<open>__init__\<close>
  stores \<open>_values\<close> there, line 64), then the dictionaries of the classes along
  \<open>__mro__\<close>. What a read can return:
\<close>

datatype ('ty, 'v) py_attr =
    MemberValue 'v
  | ValuesDict "'v ordered_dict"
  | MembersDict "'ty ordered_dict"
  | AbstractFlag bool
  | ScopeRef "component option"
  | Method string
  | Builtin string

text \<open>The functions that the body of \<open>class UserStruct\<close> defines (lines 51 to 151).\<close>

definition UserStruct_methods :: "string list" where
  "UserStruct_methods =
     [''__init__'', ''define_new'', ''__getattr__'', ''_set_parent_scope'',
      ''get_parent_scope'', ''get_scope_path'', ''__repr__'']"

text \<open>
  The entry of a name in the own dictionary of class \<open>c\<close>: the three class attributes
  where the class has them, and on \<open>UserStruct\<close> itself its methods.
\<close>

definition cls_dict :: "'ty store \<Rightarrow> nat \<Rightarrow> string \<Rightarrow> ('ty, 'v) py_attr option" where
  "cls_dict st c name =
     (if name = ''_members'' then map_option MembersDict (d_members (st ! c))
      else if name = ''_is_abstract'' then map_option AbstractFlag (d_is_abstract (st ! c))
      else if name = ''_parent_scope'' then map_option ScopeRef (d_parent_scope (st ! c))
      else if c = UserStruct_id \<and> name \<in> set UserStruct_methods then Some (Method name)
      else None)"

fun mro_find :: "'ty store \<Rightarrow> string \<Rightarrow> nat list \<Rightarrow> ('ty, 'v) py_attr option" where
  "mro_find st name [] = None"
| "mro_find st name (c # cs) =
     (case cls_dict st c name of Some a \<Rightarrow> Some a | None \<Rightarrow> mro_find st name cs)"

text \<open>
  The normal lookup, \<open>object.__getattribute__\<close>. The attributes that every Python object
  and every class dictionary has from the runtime (\<open>__class__\<close>, \<open>__dict__\<close>, \<open>__eq__\<close> and
  so on) are not in the source: their names are the parameter \<open>runtime\<close>.
\<close>

definition object_getattribute ::
  "string set \<Rightarrow> 'ty store \<Rightarrow> 'v struct_value \<Rightarrow> string \<Rightarrow> ('ty, 'v) py_attr option" where
  "object_getattribute runtime st self name =
     (if name = ''_values'' then Some (ValuesDict (inst_values self))
      else (case mro_find st name (cls_mro (st ! inst_class self)) of
              Some a \<Rightarrow> Some a
            | None \<Rightarrow> if name \<in> runtime then Some (Builtin name) else None))"

text \<open>The attribute read \<open>getattr(self, name)\<close>: the normal lookup, then \<open>__getattr__\<close>.\<close>

definition py_getattr ::
  "string set \<Rightarrow> 'ty store \<Rightarrow> 'v struct_value \<Rightarrow> string \<Rightarrow> error + ('ty, 'v) py_attr" where
  "py_getattr runtime st self name =
     (case object_getattribute runtime st self name of
        Some a \<Rightarrow> Inr a
      | None \<Rightarrow> (case UserStruct_getattr st self name of
                   Inl e \<Rightarrow> Inl e
                 | Inr v \<Rightarrow> Inr (MemberValue v)))"

text \<open>The names that the normal lookup can find on a struct value, the runtime's apart.\<close>

definition shadowing_names :: "string list" where
  "shadowing_names =
     ''_values'' # ''_members'' # ''_is_abstract'' # ''_parent_scope'' # UserStruct_methods"

text \<open>Lines 103 to 105, \<open>_set_parent_scope\<close>: assigns the attribute on \<open>cls\<close> itself.\<close>

definition set_parent_scope :: "'ty store \<Rightarrow> nat \<Rightarrow> component \<Rightarrow> 'ty store" where
  "set_parent_scope st cls scope = st[cls := (st ! cls)\<lparr>d_parent_scope := Some (Some scope)\<rparr>]"

text \<open>Lines 107 to 112, \<open>get_parent_scope\<close>: \<open>getattr(cls, "_parent_scope", None)\<close>.\<close>

definition get_parent_scope :: "'ty store \<Rightarrow> nat \<Rightarrow> component option" where
  "get_parent_scope st cls =
     (case cls_getattr st cls d_parent_scope of None \<Rightarrow> None | Some v \<Rightarrow> v)"

text \<open>Lines 114 to 144, \<open>get_scope_path\<close>, and its default separator.\<close>

definition get_scope_path :: "'ty store \<Rightarrow> nat \<Rightarrow> string \<Rightarrow> string" where
  "get_scope_path st cls scope_separator =
     (case get_parent_scope st cls of
        None \<Rightarrow> ''''
      | Some parent_scope \<Rightarrow>
          if is_Root parent_scope then ''''
          else let parent_path = comp_get_scope_path parent_scope scope_separator
               in if parent_path \<noteq> ''''
                  then parent_path @ scope_separator @ scope_name parent_scope
                  else scope_name parent_scope)"

definition default_scope_separator :: string where
  "default_scope_separator = ''::''"

text \<open>
  Lines 153 to 157, \<open>is_user_struct\<close>. Its argument is any Python object: a class, a
  struct value, or something else. \<open>issubclass(t, UserStruct)\<close> looks for \<open>UserStruct\<close> in
  \<open>t.__mro__\<close>, and is reached only when \<open>inspect.isclass(t)\<close> holds.
\<close>

datatype ('v, 'o) py_object =
    PyClass nat
  | PyStruct "'v struct_value"
  | PyOther 'o

fun isclass :: "('v, 'o) py_object \<Rightarrow> bool" where
  "isclass (PyClass c) = True"
| "isclass (PyStruct s) = False"
| "isclass (PyOther x) = False"

definition issubclass :: "'ty store \<Rightarrow> nat \<Rightarrow> nat \<Rightarrow> bool" where
  "issubclass st c base = (base \<in> set (cls_mro (st ! c)))"

fun is_user_struct :: "'ty store \<Rightarrow> ('v, 'o) py_object \<Rightarrow> bool" where
  "is_user_struct st (PyClass c) = (isclass (PyClass c :: ('v, 'o) py_object) \<and> issubclass st c UserStruct_id)"
| "is_user_struct st t = False"

text \<open>
  The docstring of the class (line 44): the member names of a struct are
  \<open>_members.keys()\<close>.
\<close>

definition member_names :: "'ty store \<Rightarrow> nat \<Rightarrow> string list option" where
  "member_names st cls = map_option od_keys (cls_getattr st cls d_members)"


section \<open>Well-formed stores\<close>

text \<open>
  What Python guarantees of the class objects the module can meet: a class is created
  after its base, and \<open>type\<close> sets its \<open>__mro__\<close> to itself followed by the \<open>__mro__\<close> of
  its single base; \<open>UserStruct\<close> is in the store with \<open>_members\<close> and \<open>_is_abstract\<close> in its
  own dictionary.
\<close>

definition wf_cls :: "'ty store \<Rightarrow> nat \<Rightarrow> bool" where
  "wf_cls st c =
     (case cls_bases (st ! c) of
        [] \<Rightarrow> cls_mro (st ! c) = [c]
      | [b] \<Rightarrow> b < c \<and> cls_mro (st ! c) = c # cls_mro (st ! b)
      | _ \<Rightarrow> False)"

definition wf_store :: "'ty store \<Rightarrow> bool" where
  "wf_store st =
     (UserStruct_id < length st \<and> d_members (st ! UserStruct_id) \<noteq> None
      \<and> d_is_abstract (st ! UserStruct_id) \<noteq> None
      \<and> (\<forall>c < length st. wf_cls st c))"

text \<open>A struct type descriptor: a class of the store that is \<open>UserStruct\<close> or below it.\<close>

definition struct_class :: "'ty store \<Rightarrow> nat \<Rightarrow> bool" where
  "struct_class st c = (c < length st \<and> issubclass st c UserStruct_id)"

text \<open>Derivation from \<open>UserStruct\<close> along \<open>__bases__\<close>, in any number of steps.\<close>

inductive derives_from_UserStruct :: "'ty store \<Rightarrow> nat \<Rightarrow> bool" for st :: "'ty store" where
  derives_self: "derives_from_UserStruct st UserStruct_id"
| derives_base: "b \<in> set (cls_bases (st ! c)) \<Longrightarrow> derives_from_UserStruct st b
                 \<Longrightarrow> derives_from_UserStruct st c"

text \<open>The two operations of the module that change the store, called on a descriptor.\<close>

inductive store_step :: "'ty store \<Rightarrow> 'ty store \<Rightarrow> bool" where
  step_define_new:
    "struct_class st cls \<Longrightarrow> store_step st (snd (define_new st cls name members is_abstract))"
| step_set_parent_scope:
    "struct_class st cls \<Longrightarrow> store_step st (set_parent_scope st cls scope)"


section \<open>Example declarations\<close>

text \<open>
  The scenario of the specification: an abstract \<open>Base\<close> without members (class 2) and a
  concrete \<open>Point\<close> derived from it (class 3); then \<open>Point\<close> declared in scope \<open>b\<close> inside
  scope \<open>a\<close> inside the root, and \<open>Point3D\<close> derived from it (class 4).
\<close>

definition store_Base :: "string store" where
  "store_Base = snd (define_new initial_store UserStruct_id ''Base'' [] True)"

definition store_Point :: "string store" where
  "store_Point =
     snd (define_new store_Base 2 ''Point'' [(''x'', ''longint''), (''y'', ''longint'')] False)"

definition scope_root :: component where
  "scope_root = Component True ''root'' None"

definition scope_a :: component where
  "scope_a = Component False ''a'' (Some scope_root)"

definition scope_b :: component where
  "scope_b = Component False ''b'' (Some scope_a)"

definition store_scoped :: "string store" where
  "store_scoped = set_parent_scope store_Point 3 scope_b"

definition store_Point3D :: "string store" where
  "store_Point3D = snd (define_new store_scoped 3 ''Point3D'' [(''z'', ''longint'')] False)"

text \<open>A struct with a member named \<open>__setstate__\<close> (class 2), and a value of it.\<close>

definition store_Pickled :: "string store" where
  "store_Pickled =
     snd (define_new initial_store UserStruct_id ''Pickled'' [(''__setstate__'', ''longint'')] False)"

definition value_Pickled :: "int struct_value" where
  "value_Pickled = \<lparr>inst_class = 2, inst_values = [(''__setstate__'', 42)]\<rparr>"

text \<open>
  A struct whose members have names that the normal lookup finds (class 2), and a value
  of it; and, for the examples, the names of the attributes of a plain object in
  CPython 3.11 together with \<open>__dict__\<close>, \<open>__module__\<close> and \<open>__weakref__\<close> of its class.
\<close>

definition store_Shadow :: "string store" where
  "store_Shadow =
     snd (define_new initial_store UserStruct_id ''Shadow''
            [(''_values'', ''longint''), (''_members'', ''longint''),
             (''get_scope_path'', ''longint''), (''__class__'', ''longint'')] False)"

definition value_Shadow :: "int struct_value" where
  "value_Shadow =
     \<lparr>inst_class = 2,
      inst_values = [(''_values'', 1), (''_members'', 2), (''get_scope_path'', 3),
                     (''__class__'', 4)]\<rparr>"

definition object_attrs :: "string list" where
  "object_attrs =
     [''__class__'', ''__delattr__'', ''__dict__'', ''__dir__'', ''__doc__'', ''__eq__'',
      ''__format__'', ''__ge__'', ''__getattribute__'', ''__getstate__'', ''__gt__'',
      ''__hash__'', ''__init_subclass__'', ''__le__'', ''__lt__'', ''__module__'', ''__ne__'',
      ''__new__'', ''__reduce__'', ''__reduce_ex__'', ''__setattr__'', ''__sizeof__'',
      ''__str__'', ''__subclasshook__'', ''__weakref__'']"



section \<open>Dictionaries\<close>

lemma od_setitem_new: "k \<notin> set (od_keys d) \<Longrightarrow> od_setitem d k v = d @ [(k, v)]"
  by (induction d) (auto simp: od_keys_def)

lemma od_keys_setitem_list:
  "od_keys (od_setitem d k v) = (if k \<in> set (od_keys d) then od_keys d else od_keys d @ [k])"
  by (induction d) (force simp: od_keys_def)+

lemma od_keys_setitem: "set (od_keys (od_setitem d k v)) = insert k (set (od_keys d))"
  by (auto simp: od_keys_setitem_list)

lemma od_keys_update: "set (od_keys (od_update d other)) = set (od_keys d) \<union> set (od_keys other)"
proof (induction other arbitrary: d)
  case Nil
  then show ?case by (simp add: od_keys_def)
next
  case (Cons kv other)
  obtain k v where kv: "kv = (k, v)" by (cases kv)
  have "set (od_keys (od_update (od_setitem d k v) other))
        = set (od_keys (od_setitem d k v)) \<union> set (od_keys other)"
    by (rule Cons.IH)
  with kv show ?case by (simp add: od_keys_setitem) (simp add: od_keys_def)
qed

lemma od_update_disjoint:
  "distinct (od_keys other) \<Longrightarrow> set (od_keys d) \<inter> set (od_keys other) = {}
   \<Longrightarrow> od_update d other = d @ other"
proof (induction other arbitrary: d)
  case Nil
  then show ?case by simp
next
  case (Cons kv other)
  obtain k v where kv: "kv = (k, v)" by (cases kv)
  from Cons.prems kv have fresh: "k \<notin> set (od_keys d)"
    by (auto simp: od_keys_def)
  from Cons.prems kv have "distinct (od_keys other)"
    and "set (od_keys (d @ [(k, v)])) \<inter> set (od_keys other) = {}"
    by (auto simp: od_keys_def)
  then have "od_update (d @ [(k, v)]) other = (d @ [(k, v)]) @ other"
    by (rule Cons.IH)
  with fresh kv show ?case by (simp add: od_setitem_new)
qed

lemma od_getitem_member: "k \<in> set (od_keys d) \<Longrightarrow> \<exists>v. od_getitem d k = Inr v"
  by (induction d) (auto simp: od_keys_def od_getitem_def)


section \<open>Attribute lookup in well-formed stores\<close>

lemma wf_initial: "wf_store initial_store"
  by (simp add: wf_store_def wf_cls_def initial_store_def object_cls_def UserStruct_cls_def
      UserStruct_id_def object_id_def less_Suc_eq)

lemma mro_bound:
  assumes "wf_store st"
  shows "c < length st \<Longrightarrow> x \<in> set (cls_mro (st ! c)) \<Longrightarrow> x \<le> c"
proof (induction c arbitrary: x rule: less_induct)
  case (less c)
  from assms less.prems(1) have wf: "wf_cls st c" by (simp add: wf_store_def)
  show ?case
  proof (cases "cls_bases (st ! c)")
    case Nil
    with wf less.prems show ?thesis by (simp add: wf_cls_def)
  next
    case (Cons b bs)
    with wf have bs: "bs = []" and b: "b < c" and mro: "cls_mro (st ! c) = c # cls_mro (st ! b)"
      by (auto simp: wf_cls_def split: list.splits)
    from less.prems(2) mro have "x = c \<or> x \<in> set (cls_mro (st ! b))" by simp
    then show ?thesis
    proof
      assume "x = c" then show ?thesis by simp
    next
      assume "x \<in> set (cls_mro (st ! b))"
      with less.IH [OF b] b less.prems(1) have "x \<le> b" by simp
      with b show ?thesis by simp
    qed
  qed
qed

lemma mro_self:
  "wf_store st \<Longrightarrow> c < length st \<Longrightarrow> c \<in> set (cls_mro (st ! c))"
proof -
  assume "wf_store st" "c < length st"
  then have "wf_cls st c" by (simp add: wf_store_def)
  then show ?thesis by (cases "cls_bases (st ! c)") (auto simp: wf_cls_def split: list.splits)
qed

lemma mro_lookup_cong:
  "(\<And>x. x \<in> set cs \<Longrightarrow> attr (st' ! x) = attr (st ! x))
   \<Longrightarrow> mro_lookup st' attr cs = mro_lookup st attr cs"
  by (induction cs) (auto split: option.splits)

lemma cls_getattr_append:
  assumes "wf_store st" "c < length st"
  shows "cls_getattr (st @ ys) c attr = cls_getattr st c attr"
proof -
  have "\<And>x. x \<in> set (cls_mro (st ! c)) \<Longrightarrow> x < length st"
    using mro_bound [OF assms] assms(2) by fastforce
  then have "mro_lookup (st @ ys) attr (cls_mro (st ! c)) = mro_lookup st attr (cls_mro (st ! c))"
    by (intro mro_lookup_cong) (simp add: nth_append)
  with assms(2) show ?thesis by (simp add: cls_getattr_def nth_append)
qed

lemma mro_lookup_found:
  "u \<in> set cs \<Longrightarrow> attr (st ! u) \<noteq> None \<Longrightarrow> mro_lookup st attr cs \<noteq> None"
  by (induction cs) (auto split: option.splits)

lemma struct_has_members:
  "wf_store st \<Longrightarrow> struct_class st c \<Longrightarrow> \<exists>m. cls_getattr st c d_members = Some m"
  using mro_lookup_found [of UserStruct_id "cls_mro (st ! c)" d_members st]
  by (auto simp: wf_store_def cls_getattr_def struct_class_def issubclass_def)

lemma struct_has_is_abstract:
  "wf_store st \<Longrightarrow> struct_class st c \<Longrightarrow> \<exists>a. cls_getattr st c d_is_abstract = Some a"
  using mro_lookup_found [of UserStruct_id "cls_mro (st ! c)" d_is_abstract st]
  by (auto simp: wf_store_def cls_getattr_def struct_class_def issubclass_def)

lemma struct_class_UserStruct: "wf_store st \<Longrightarrow> struct_class st UserStruct_id"
  by (simp add: struct_class_def issubclass_def wf_store_def mro_self)

lemma wf_append_new_type:
  assumes "wf_store st" "cls < length st"
  shows "wf_store (st @ [new_type st name cls m a])"
proof -
  have "wf_cls (st @ [new_type st name cls m a]) c" if "c < Suc (length st)" for c
  proof (cases "c < length st")
    case True
    with assms(1) have wf: "wf_cls st c" by (simp add: wf_store_def)
    show ?thesis
    proof (cases "cls_bases (st ! c)")
      case Nil
      with wf True show ?thesis by (simp add: wf_cls_def nth_append)
    next
      case (Cons b bs)
      with wf have "bs = []" "b < c" "cls_mro (st ! c) = c # cls_mro (st ! b)"
        by (auto simp: wf_cls_def split: list.splits)
      with Cons True show ?thesis by (simp add: wf_cls_def nth_append)
    qed
  next
    case False
    with that have "c = length st" by simp
    with assms(2) show ?thesis by (simp add: wf_cls_def nth_append new_type_def)
  qed
  with assms(1) show ?thesis by (simp add: wf_store_def nth_append)
qed

lemma wf_define_new:
  "wf_store st \<Longrightarrow> cls < length st \<Longrightarrow> wf_store (snd (define_new st cls name members a))"
  by (simp add: define_new_def wf_append_new_type split: option.splits)

lemma set_parent_scope_fields:
  "cls_bases (set_parent_scope st cls scope ! c) = cls_bases (st ! c)
   \<and> cls_mro (set_parent_scope st cls scope ! c) = cls_mro (st ! c)
   \<and> d_members (set_parent_scope st cls scope ! c) = d_members (st ! c)
   \<and> d_is_abstract (set_parent_scope st cls scope ! c) = d_is_abstract (st ! c)"
  by (cases "cls < length st"; cases "c = cls")
    (simp_all add: set_parent_scope_def list_update_beyond)

lemma wf_set_parent_scope:
  assumes "wf_store st"
  shows "wf_store (set_parent_scope st cls scope)"
proof -
  let ?st = "set_parent_scope st cls scope"
  have len: "length ?st = length st" by (simp add: set_parent_scope_def)
  have "wf_cls ?st c = wf_cls st c" for c
    by (simp add: wf_cls_def set_parent_scope_fields split: list.splits)
  with assms show ?thesis
    by (simp add: wf_store_def set_parent_scope_fields len)
qed


section \<open>The example declarations, evaluated\<close>

lemma store_Base_eq:
  "store_Base = [object_cls, UserStruct_cls,
     \<lparr>cls_name = ''Base'', cls_bases = [1], cls_mro = [2, 1, 0],
      d_members = Some [], d_is_abstract = Some True, d_parent_scope = None\<rparr>]"
  by (simp add: store_Base_def define_new_def initial_store_def cls_getattr_def
      UserStruct_cls_def object_cls_def UserStruct_id_def object_id_def od_keys_def new_type_def)

lemma store_Point_eq:
  "store_Point = [object_cls, UserStruct_cls,
     \<lparr>cls_name = ''Base'', cls_bases = [1], cls_mro = [2, 1, 0],
      d_members = Some [], d_is_abstract = Some True, d_parent_scope = None\<rparr>,
     \<lparr>cls_name = ''Point'', cls_bases = [2], cls_mro = [3, 2, 1, 0],
      d_members = Some [(''x'', ''longint''), (''y'', ''longint'')],
      d_is_abstract = Some False, d_parent_scope = None\<rparr>]"
  by (simp add: store_Point_def store_Base_eq define_new_def cls_getattr_def
      od_keys_def new_type_def)

lemma wf_store_Base: "wf_store store_Base"
  unfolding store_Base_def
  by (rule wf_define_new [OF wf_initial]) (simp add: initial_store_def UserStruct_id_def)

lemma wf_store_Point: "wf_store store_Point"
  unfolding store_Point_def
  by (rule wf_define_new [OF wf_store_Base]) (simp add: store_Base_eq)


lemma struct_class_Point: "struct_class store_Point 3"
  by (simp add: struct_class_def store_Point_eq issubclass_def UserStruct_id_def)

lemma store_scoped_eq:
  "store_scoped = [object_cls, UserStruct_cls,
     \<lparr>cls_name = ''Base'', cls_bases = [1], cls_mro = [2, 1, 0],
      d_members = Some [], d_is_abstract = Some True, d_parent_scope = None\<rparr>,
     \<lparr>cls_name = ''Point'', cls_bases = [2], cls_mro = [3, 2, 1, 0],
      d_members = Some [(''x'', ''longint''), (''y'', ''longint'')],
      d_is_abstract = Some False, d_parent_scope = Some (Some scope_b)\<rparr>]"
  by (simp add: store_scoped_def store_Point_eq set_parent_scope_def)

lemma wf_store_scoped: "wf_store store_scoped"
  unfolding store_scoped_def by (rule wf_set_parent_scope [OF wf_store_Point])

lemma store_Point3D_eq:
  "store_Point3D = [object_cls, UserStruct_cls,
     \<lparr>cls_name = ''Base'', cls_bases = [1], cls_mro = [2, 1, 0],
      d_members = Some [], d_is_abstract = Some True, d_parent_scope = None\<rparr>,
     \<lparr>cls_name = ''Point'', cls_bases = [2], cls_mro = [3, 2, 1, 0],
      d_members = Some [(''x'', ''longint''), (''y'', ''longint'')],
      d_is_abstract = Some False, d_parent_scope = Some (Some scope_b)\<rparr>,
     \<lparr>cls_name = ''Point3D'', cls_bases = [3], cls_mro = [4, 3, 2, 1, 0],
      d_members = Some [(''x'', ''longint''), (''y'', ''longint''), (''z'', ''longint'')],
      d_is_abstract = Some False, d_parent_scope = None\<rparr>]"
  by (simp add: store_Point3D_def store_scoped_eq define_new_def cls_getattr_def
      od_keys_def new_type_def)

lemma define_Point3D:
  "define_new store_scoped 3 ''Point3D'' [(''z'', ''longint'')] False = (Inr 4, store_Point3D)"
  by (simp add: store_Point3D_eq) (simp add: store_scoped_eq define_new_def cls_getattr_def
      od_keys_def new_type_def)

lemma store_Pickled_eq:
  "store_Pickled = [object_cls, UserStruct_cls,
     \<lparr>cls_name = ''Pickled'', cls_bases = [1], cls_mro = [2, 1, 0],
      d_members = Some [(''__setstate__'', ''longint'')], d_is_abstract = Some False,
      d_parent_scope = None\<rparr>]"
  by (simp add: store_Pickled_def define_new_def initial_store_def cls_getattr_def
      UserStruct_cls_def object_cls_def UserStruct_id_def object_id_def od_keys_def new_type_def)

lemma store_Shadow_eq:
  "store_Shadow = [object_cls, UserStruct_cls,
     \<lparr>cls_name = ''Shadow'', cls_bases = [1], cls_mro = [2, 1, 0],
      d_members = Some [(''_values'', ''longint''), (''_members'', ''longint''),
                        (''get_scope_path'', ''longint''), (''__class__'', ''longint'')],
      d_is_abstract = Some False, d_parent_scope = None\<rparr>]"
  by (simp add: store_Shadow_def define_new_def initial_store_def cls_getattr_def
      UserStruct_cls_def object_cls_def UserStruct_id_def object_id_def od_keys_def new_type_def)



section \<open>What the operations compute\<close>

lemma define_new_result:
  "cls_getattr st B d_members = Some inherited \<Longrightarrow>
   define_new st B name M a =
     (if set (od_keys inherited) \<inter> set (od_keys M) \<noteq> {}
      then (Inl (ValueError (CHR 0x27 # ''members' contains keys that overlap with parent'')), st)
      else (Inr (length st), st @ [new_type st name B (od_update inherited M) a]))"
  by (simp add: define_new_def)

lemma new_type_members:
  "cls_getattr (st @ [new_type st name B m a]) (length st) d_members = Some m"
  by (simp add: cls_getattr_def new_type_def)

lemma init_success:
  "UserStruct_init st D V = Inr sv \<Longrightarrow>
   cls_getattr st D d_is_abstract = Some False
   \<and> (\<exists>members. cls_getattr st D d_members = Some members
         \<and> set (od_keys V) = set (od_keys members))
   \<and> sv = \<lparr>inst_class = D, inst_values = V\<rparr>"
  by (auto simp: UserStruct_init_def split: option.splits if_splits)

lemma cls_getattr_set_parent_scope_members:
  "cls_getattr (set_parent_scope st cls scope) c d_members = cls_getattr st c d_members"
proof -
  have "mro_lookup (set_parent_scope st cls scope) d_members cs = mro_lookup st d_members cs"
    for cs
    by (rule mro_lookup_cong) (simp add: set_parent_scope_fields)
  then show ?thesis by (simp add: cls_getattr_def set_parent_scope_fields)
qed

lemma store_step_preserves:
  assumes "store_step st st'" and "wf_store st"
  shows "wf_store st' \<and> length st \<le> length st'
         \<and> (\<forall>c < length st. cls_getattr st' c d_members = cls_getattr st c d_members)"
  using assms
proof (induction rule: store_step.induct)
  case (step_define_new st cls name members is_abstract)
  then have cls: "cls < length st" by (simp add: struct_class_def)
  with step_define_new.prems have "wf_store (snd (define_new st cls name members is_abstract))"
    by (simp add: wf_define_new)
  moreover have "length st \<le> length (snd (define_new st cls name members is_abstract))"
    by (simp add: define_new_def split: option.splits)
  moreover have "cls_getattr (snd (define_new st cls name members is_abstract)) c d_members
                 = cls_getattr st c d_members" if "c < length st" for c
    using that step_define_new.prems
    by (simp add: define_new_def cls_getattr_append split: option.splits)
  ultimately show ?case by simp
next
  case (step_set_parent_scope st cls scope)
  then show ?case
    by (simp add: wf_set_parent_scope cls_getattr_set_parent_scope_members)
      (simp add: set_parent_scope_def)
qed

lemma store_steps_preserve:
  assumes "store_step\<^sup>*\<^sup>* st st'" and "wf_store st"
  shows "wf_store st' \<and> length st \<le> length st'
         \<and> (\<forall>c < length st. cls_getattr st' c d_members = cls_getattr st c d_members)"
  using assms
proof (induction rule: rtranclp_induct)
  case base
  then show ?case by simp
next
  case (step y z)
  then have y: "wf_store y" "length st \<le> length y"
    and eq: "\<forall>c < length st. cls_getattr y c d_members = cls_getattr st c d_members"
    by simp_all
  from store_step_preserves [OF step.hyps(2) y(1)]
  have z: "wf_store z" "length y \<le> length z"
    and eqz: "\<forall>c < length y. cls_getattr z c d_members = cls_getattr y c d_members"
    by simp_all
  from y z eq eqz show ?case by auto
qed

lemma mro_find_unshadowed:
  "name \<notin> set shadowing_names \<Longrightarrow> mro_find st name cs = None"
  by (induction cs) (auto simp: cls_dict_def shadowing_names_def)

lemma object_getattribute_unshadowed:
  "name \<notin> set shadowing_names \<Longrightarrow> name \<notin> runtime
   \<Longrightarrow> object_getattribute runtime st self name = None"
  by (simp add: object_getattribute_def mro_find_unshadowed) (simp add: shadowing_names_def)

lemma getattr_hook_roundtrip:
  assumes "UserStruct_init st D V = Inr sv"
  shows "\<exists>members. cls_getattr st D d_members = Some members
           \<and> (\<forall>name. name \<in> set (od_keys members) \<and> name \<noteq> ''__setstate__'' \<longrightarrow>
                 UserStruct_getattr st sv name = od_getitem V name
                 \<and> (\<exists>v. od_getitem V name = Inr v))
           \<and> (\<forall>name. name \<notin> set (od_keys members) \<longrightarrow>
                 (\<exists>msg. UserStruct_getattr st sv name = Inl (AttributeError msg)))"
proof -
  from init_success [OF assms] obtain members where
    mem: "cls_getattr st D d_members = Some members"
    and keys: "set (od_keys V) = set (od_keys members)"
    and sv: "sv = \<lparr>inst_class = D, inst_values = V\<rparr>" by blast
  have rd: "UserStruct_getattr st sv name = od_getitem V name \<and> (\<exists>v. od_getitem V name = Inr v)"
    if "name \<in> set (od_keys members)" "name \<noteq> ''__setstate__''" for name
    using that keys od_getitem_member [of name V]
    by (simp add: UserStruct_getattr_def sv od_contains_def)
  have miss: "\<exists>msg. UserStruct_getattr st sv name = Inl (AttributeError msg)"
    if "name \<notin> set (od_keys members)" for name
    using that keys by (simp add: UserStruct_getattr_def sv od_contains_def)
  from mem rd miss show ?thesis by simp
qed

lemma subclass_derives:
  assumes "wf_store st"
  shows "c < length st \<Longrightarrow> UserStruct_id \<in> set (cls_mro (st ! c))
         \<Longrightarrow> derives_from_UserStruct st c"
proof (induction c rule: less_induct)
  case (less c)
  from assms less.prems(1) have wf: "wf_cls st c" by (simp add: wf_store_def)
  show ?case
  proof (cases "cls_bases (st ! c)")
    case Nil
    with wf less.prems(2) have "c = UserStruct_id" by (simp add: wf_cls_def)
    then show ?thesis by (simp add: derives_self)
  next
    case (Cons b bs)
    with wf have b: "b < c" and mro: "cls_mro (st ! c) = c # cls_mro (st ! b)"
      by (auto simp: wf_cls_def split: list.splits)
    from less.prems(2) mro have "c = UserStruct_id \<or> UserStruct_id \<in> set (cls_mro (st ! b))"
      by auto
    then show ?thesis
    proof
      assume "c = UserStruct_id"
      then show ?thesis by (simp add: derives_self)
    next
      assume "UserStruct_id \<in> set (cls_mro (st ! b))"
      with less.IH [OF b] b less.prems(1) have "derives_from_UserStruct st b" by simp
      moreover from Cons have "b \<in> set (cls_bases (st ! c))" by simp
      ultimately show ?thesis by (rule derives_base [rotated])
    qed
  qed
qed

lemma derives_subclass:
  assumes "wf_store st" and "derives_from_UserStruct st c"
  shows "c < length st \<longrightarrow> UserStruct_id \<in> set (cls_mro (st ! c))"
  using assms(2)
proof (induction rule: derives_from_UserStruct.induct)
  case derives_self
  from assms(1) show ?case by (simp add: mro_self)
next
  case (derives_base b c)
  show ?case
  proof
    assume c: "c < length st"
    with assms(1) have wf: "wf_cls st c" by (simp add: wf_store_def)
    from derives_base.hyps(1) wf have "b < c" and "cls_mro (st ! c) = c # cls_mro (st ! b)"
      by (auto simp: wf_cls_def split: list.splits)
    with derives_base.IH c show "UserStruct_id \<in> set (cls_mro (st ! c))" by simp
  qed
qed


section \<open>Properties of the struct operations\<close>

text \<open>
  C1. The claim: a descriptor just derived from a base that has a parent scope has no
  parent scope of its own, so \<open>get_parent_scope\<close> returns \<open>None\<close> on it. The class
  dictionary built by \<open>define_new\<close> has no \<open>_parent_scope\<close> entry, so the lookup goes on
  along \<open>__mro__\<close> and finds the entry of the base: with \<open>Point\<close> declared in scope \<open>b\<close>,
  the class \<open>Point3D\<close> derived from it answers \<open>b\<close> before any \<open>_set_parent_scope\<close> on it.
\<close>

theorem derived_class_reports_base_scope:
  "get_parent_scope store_scoped 3 = Some scope_b
   \<and> define_new store_scoped 3 ''Point3D'' [(''z'', ''longint'')] False = (Inr 4, store_Point3D)
   \<and> get_parent_scope store_Point3D 4 = Some scope_b
   \<and> get_parent_scope store_Point3D 4 \<noteq> None"
  by (simp add: define_Point3D)
    (simp add: store_Point3D_eq store_scoped_eq get_parent_scope_def cls_getattr_def)

text \<open>
  C2. When the base's \<open>_members\<close> is \<open>inherited\<close> and no key of the dictionary \<open>M\<close> is among
  its keys, \<open>define_new\<close> succeeds, and the \<open>_members\<close> of the new class is \<open>inherited\<close>
  followed by the items of \<open>M\<close>: its items are those of \<open>inherited\<close> and of \<open>M\<close> and no
  others, and its member names are the inherited names in the base's order followed by
  the names of \<open>M\<close> in the order of \<open>M\<close>. (By \<open>struct_has_members\<close> every descriptor of a
  well-formed store has such a dictionary \<open>inherited\<close>.)
\<close>

theorem derive_appends_new_members:
  assumes "cls_getattr st B d_members = Some inherited"
    and "distinct (od_keys M)"
    and "set (od_keys inherited) \<inter> set (od_keys M) = {}"
  shows "\<exists>D st' members'.
           define_new st B name M is_abstract = (Inr D, st')
           \<and> cls_getattr st' D d_members = Some members'
           \<and> members' = inherited @ M
           \<and> set members' = set inherited \<union> set M
           \<and> member_names st' D = Some (od_keys inherited @ od_keys M)"
proof -
  let ?D = "length st"
  let ?st' = "st @ [new_type st name B (od_update inherited M) is_abstract]"
  have upd: "od_update inherited M = inherited @ M"
    using assms(2,3) by (rule od_update_disjoint)
  have run: "define_new st B name M is_abstract = (Inr ?D, ?st')"
    using assms(1,3) by (simp add: define_new_def)
  have mem: "cls_getattr ?st' ?D d_members = Some (inherited @ M)"
    by (simp add: cls_getattr_def new_type_def upd)
  then have "member_names ?st' ?D = Some (od_keys inherited @ od_keys M)"
    by (simp add: member_names_def od_keys_def)
  with run mem show ?thesis by simp
qed

theorem derive_appends_new_members_witness:
  "cls_getattr store_scoped 3 d_members = Some [(''x'', ''longint''), (''y'', ''longint'')]
   \<and> distinct (od_keys [(''z'', ''longint'')])
   \<and> set (od_keys [(''x'', ''longint''), (''y'', ''longint'')])
       \<inter> set (od_keys [(''z'', ''longint'')]) = {}
   \<and> define_new store_scoped 3 ''Point3D'' [(''z'', ''longint'')] False = (Inr 4, store_Point3D)
   \<and> cls_getattr store_Point3D 4 d_members
       = Some [(''x'', ''longint''), (''y'', ''longint''), (''z'', ''longint'')]
   \<and> member_names store_Point3D 4 = Some [''x'', ''y'', ''z'']"
proof -
  have h1: "cls_getattr store_scoped 3 d_members = Some [(''x'', ''longint''), (''y'', ''longint'')]"
    by (simp add: store_scoped_eq cls_getattr_def)
  have h2: "distinct (od_keys [(''z'', ''longint'')])"
    by (simp add: od_keys_def)
  have h3: "set (od_keys [(''x'', ''longint''), (''y'', ''longint'')])
              \<inter> set (od_keys [(''z'', ''longint'')]) = {}"
    by (simp add: od_keys_def)
  from derive_appends_new_members [OF h1 h2 h3, of "''Point3D''" False]
  have "cls_getattr store_Point3D 4 d_members
          = Some [(''x'', ''longint''), (''y'', ''longint''), (''z'', ''longint'')]
        \<and> member_names store_Point3D 4 = Some [''x'', ''y'', ''z'']"
    by (simp add: define_Point3D od_keys_def)
  with h1 h2 h3 define_Point3D show ?thesis by blast
qed

text \<open>
  C3. When the base's \<open>_members\<close> is \<open>inherited\<close>, \<open>define_new\<close> fails if and only if a key
  of \<open>M\<close> is among the keys of \<open>inherited\<close>, and then with the \<open>ValueError\<close> of line 84.
  \<open>inherited\<close> is the flattened dictionary: after a successful derivation with \<open>M\<close>, a
  further derivation from the new class with \<open>M2\<close> fails if and only if a key of \<open>M2\<close> is
  among the keys of \<open>inherited\<close> or of \<open>M\<close>.
\<close>

theorem derive_fails_iff_collision:
  assumes "cls_getattr st B d_members = Some inherited"
  shows "((\<exists>e. fst (define_new st B name M a) = Inl e)
            \<longleftrightarrow> set (od_keys inherited) \<inter> set (od_keys M) \<noteq> {})
         \<and> (\<forall>e. fst (define_new st B name M a) = Inl e \<longrightarrow>
               e = ValueError (CHR 0x27 # ''members' contains keys that overlap with parent''))
         \<and> (\<forall>D st1. define_new st B name M a = (Inr D, st1) \<longrightarrow>
               ((\<exists>e. fst (define_new st1 D name2 M2 a2) = Inl e)
                  \<longleftrightarrow> (set (od_keys inherited) \<union> set (od_keys M)) \<inter> set (od_keys M2) \<noteq> {}))"
proof (intro conjI allI impI)
  show "(\<exists>e. fst (define_new st B name M a) = Inl e)
          \<longleftrightarrow> set (od_keys inherited) \<inter> set (od_keys M) \<noteq> {}"
    by (simp add: define_new_result [OF assms])
next
  fix e assume "fst (define_new st B name M a) = Inl e"
  then show "e = ValueError (CHR 0x27 # ''members' contains keys that overlap with parent'')"
    by (auto simp: define_new_result [OF assms] split: if_splits)
next
  fix D st1 assume ok: "define_new st B name M a = (Inr D, st1)"
  then have D: "D = length st"
    and st1: "st1 = st @ [new_type st name B (od_update inherited M) a]"
    by (simp_all add: define_new_result [OF assms] split: if_splits)
  have "cls_getattr st1 D d_members = Some (od_update inherited M)"
    unfolding D st1 by (rule new_type_members)
  then show "(\<exists>e. fst (define_new st1 D name2 M2 a2) = Inl e)
          \<longleftrightarrow> (set (od_keys inherited) \<union> set (od_keys M)) \<inter> set (od_keys M2) \<noteq> {}"
    by (simp add: define_new_result od_keys_update)
qed

theorem derive_fails_iff_collision_witness:
  "cls_getattr store_Base 2 d_members = Some []
   \<and> define_new store_Base 2 ''Point'' [(''x'', ''longint''), (''y'', ''longint'')] False
       = (Inr 3, store_Point)
   \<and> (\<exists>e. fst (define_new store_Point 3 ''Q'' [(''x'', ''longint'')] False) = Inl e)
   \<and> \<not> (\<exists>e. fst (define_new store_Point 3 ''Q'' [(''z'', ''longint'')] False) = Inl e)"
proof -
  have h: "cls_getattr store_Base 2 d_members = Some []"
    by (simp add: store_Base_eq cls_getattr_def)
  have run: "define_new store_Base 2 ''Point'' [(''x'', ''longint''), (''y'', ''longint'')] False
       = (Inr 3, store_Point)"
    by (simp add: store_Point_eq) (simp add: store_Base_eq define_new_def cls_getattr_def
        od_keys_def new_type_def)
  from derive_fails_iff_collision [OF h, of "''Point''"
      "[(''x'', ''longint''), (''y'', ''longint'')]" False "''Q''" "[(''x'', ''longint'')]" False]
    derive_fails_iff_collision [OF h, of "''Point''"
      "[(''x'', ''longint''), (''y'', ''longint'')]" False "''Q''" "[(''z'', ''longint'')]" False]
    run h
  show ?thesis by (simp add: od_keys_def)
qed

text \<open>
  C4. For a descriptor \<open>D\<close> of a well-formed store that is not abstract, \<open>__init__\<close>
  succeeds if and only if the keys of the values are, as a set, the member names of
  \<open>D\<close>; with a missing or an extra key it raises the one \<open>ValueError\<close> of line 62. A value
  so constructed is of class \<open>D\<close> and holds the given dictionary, and however the store
  changes afterwards by \<open>define_new\<close> and \<open>_set_parent_scope\<close>, the keys of its values stay
  the member names of its class.
\<close>

theorem construct_exact_membership:
  assumes "wf_store st" and "struct_class st D"
    and "cls_getattr st D d_is_abstract = Some False"
  shows "\<exists>names. member_names st D = Some names
           \<and> ((\<exists>sv. UserStruct_init st D V = Inr sv) \<longleftrightarrow> set (od_keys V) = set names)
           \<and> (set (od_keys V) \<noteq> set names \<longrightarrow>
                UserStruct_init st D V = Inl (ValueError ''Cannot map 'values' to this struct''))
           \<and> (\<forall>sv st'. UserStruct_init st D V = Inr sv \<and> store_step\<^sup>*\<^sup>* st st' \<longrightarrow>
                 inst_class sv = D \<and> inst_values sv = V
                 \<and> (\<exists>names'. member_names st' (inst_class sv) = Some names'
                      \<and> set (od_keys (inst_values sv)) = set names'))"
proof -
  from struct_has_members [OF assms(1,2)]
  obtain members where mem: "cls_getattr st D d_members = Some members" by blast
  have names: "member_names st D = Some (od_keys members)"
    by (simp add: member_names_def mem)
  have run: "UserStruct_init st D V =
     (if set (od_keys V) \<noteq> set (od_keys members)
      then Inl (ValueError ''Cannot map 'values' to this struct'')
      else Inr \<lparr>inst_class = D, inst_values = V\<rparr>)"
    by (simp add: UserStruct_init_def assms(3) mem)
  have later: "inst_class sv = D \<and> inst_values sv = V
                 \<and> (\<exists>names'. member_names st' (inst_class sv) = Some names'
                      \<and> set (od_keys (inst_values sv)) = set names')"
    if "UserStruct_init st D V = Inr sv" "store_step\<^sup>*\<^sup>* st st'" for sv st'
  proof -
    from that(1) run have sv: "sv = \<lparr>inst_class = D, inst_values = V\<rparr>"
      and keys: "set (od_keys V) = set (od_keys members)"
      by (auto split: if_splits)
    from assms(2) have "D < length st" by (simp add: struct_class_def)
    with store_steps_preserve [OF that(2) assms(1)] mem
    have "cls_getattr st' D d_members = Some members" by simp
    with sv keys show ?thesis by (simp add: member_names_def)
  qed
  from names run later show ?thesis by auto
qed

theorem construct_exact_membership_witness:
  "wf_store store_Point \<and> struct_class store_Point 3
   \<and> cls_getattr store_Point 3 d_is_abstract = Some False
   \<and> store_step\<^sup>*\<^sup>* store_Point store_scoped
   \<and> member_names store_Point 3 = Some [''x'', ''y'']
   \<and> UserStruct_init store_Point 3 [(''y'', 4 :: int), (''x'', 3)]
       = Inr \<lparr>inst_class = 3, inst_values = [(''y'', 4), (''x'', 3)]\<rparr>
   \<and> UserStruct_init store_Point 3 [(''x'', 3 :: int)]
       = Inl (ValueError ''Cannot map 'values' to this struct'')
   \<and> UserStruct_init store_Point 3 [(''x'', 3 :: int), (''y'', 4), (''z'', 5)]
       = Inl (ValueError ''Cannot map 'values' to this struct'')
   \<and> (\<exists>names'. member_names store_scoped 3 = Some names'
         \<and> set (od_keys [(''y'', 4 :: int), (''x'', 3)]) = set names')"
proof -
  let ?ok = "[(''y'', 4 :: int), (''x'', 3)]"
  let ?short = "[(''x'', 3 :: int)]"
  let ?long = "[(''x'', 3 :: int), (''y'', 4), (''z'', 5)]"
  let ?sv = "\<lparr>inst_class = 3, inst_values = ?ok\<rparr>"
  have abs: "cls_getattr store_Point 3 d_is_abstract = Some False"
    by (simp add: store_Point_eq cls_getattr_def)
  have n: "member_names store_Point 3 = Some [''x'', ''y'']"
    by (simp add: store_Point_eq member_names_def cls_getattr_def od_keys_def)
  have "store_step store_Point store_scoped"
    unfolding store_scoped_def by (rule step_set_parent_scope [OF struct_class_Point])
  then have steps: "store_step\<^sup>*\<^sup>* store_Point store_scoped" by (rule r_into_rtranclp)
  have ok: "UserStruct_init store_Point 3 ?ok = Inr ?sv"
    by (simp add: store_Point_eq UserStruct_init_def cls_getattr_def od_keys_def insert_commute)
  note at_Point = construct_exact_membership [OF wf_store_Point struct_class_Point abs]
  have short: "UserStruct_init store_Point 3 ?short
       = Inl (ValueError ''Cannot map 'values' to this struct'')"
  proof -
    from at_Point [of ?short] obtain names where
      a: "member_names store_Point 3 = Some names"
      and b: "set (od_keys ?short) \<noteq> set names \<longrightarrow> UserStruct_init store_Point 3 ?short
                = Inl (ValueError ''Cannot map 'values' to this struct'')"
      by blast
    from a n have names: "names = [''x'', ''y'']" by simp
    have "''y'' \<notin> set (od_keys ?short)" and "''y'' \<in> set [''x'', ''y'']"
      by (simp_all add: od_keys_def)
    then have "set (od_keys ?short) \<noteq> set [''x'', ''y'']" by metis
    with b names show ?thesis by simp
  qed
  have long: "UserStruct_init store_Point 3 ?long
       = Inl (ValueError ''Cannot map 'values' to this struct'')"
  proof -
    from at_Point [of ?long] obtain names where
      a: "member_names store_Point 3 = Some names"
      and b: "set (od_keys ?long) \<noteq> set names \<longrightarrow> UserStruct_init store_Point 3 ?long
                = Inl (ValueError ''Cannot map 'values' to this struct'')"
      by blast
    from a n have names: "names = [''x'', ''y'']" by simp
    have "''z'' \<in> set (od_keys ?long)" and "''z'' \<notin> set [''x'', ''y'']"
      by (simp_all add: od_keys_def)
    then have "set (od_keys ?long) \<noteq> set [''x'', ''y'']" by metis
    with b names show ?thesis by simp
  qed
  have perm: "\<exists>names'. member_names store_scoped 3 = Some names'
         \<and> set (od_keys ?ok) = set names'"
  proof -
    from at_Point [of ?ok] have
      c: "\<forall>sv st'. UserStruct_init store_Point 3 ?ok = Inr sv \<and> store_step\<^sup>*\<^sup>* store_Point st' \<longrightarrow>
                 inst_class sv = 3 \<and> inst_values sv = ?ok
                 \<and> (\<exists>names'. member_names st' (inst_class sv) = Some names'
                      \<and> set (od_keys (inst_values sv)) = set names')"
      by blast
    from c ok steps have "\<exists>names'. member_names store_scoped (inst_class ?sv) = Some names'
                    \<and> set (od_keys (inst_values ?sv)) = set names'"
      by blast
    then show ?thesis by simp
  qed
  show ?thesis
    by (intro conjI) (fact wf_store_Point struct_class_Point abs steps n ok short long perm)+
qed

text \<open>
  C5. On a descriptor whose \<open>_is_abstract\<close> is true, \<open>__init__\<close> raises the \<open>TypeError\<close> of
  line 58, whatever the values are.
\<close>

theorem construct_abstract_fails:
  "cls_getattr st D d_is_abstract = Some True \<Longrightarrow>
   UserStruct_init st D values
     = Inl (TypeError ''Cannot create instance of an abstract struct type'')"
  by (simp add: UserStruct_init_def)

theorem construct_abstract_fails_witness:
  "cls_getattr store_Base 2 d_is_abstract = Some True
   \<and> UserStruct_init store_Base 2 ([] :: int ordered_dict)
       = Inl (TypeError ''Cannot create instance of an abstract struct type'')
   \<and> UserStruct_init store_Base 2 [(''x'', 3 :: int)]
       = Inl (TypeError ''Cannot create instance of an abstract struct type'')"
proof -
  have h: "cls_getattr store_Base 2 d_is_abstract = Some True"
    by (simp add: store_Base_eq cls_getattr_def)
  show ?thesis
    using h construct_abstract_fails [OF h, of "[]"]
      construct_abstract_fails [OF h, of "[(''x'', 3)]"]
    by simp
qed

text \<open>
  C6, as claimed, fails in three ways. The struct \<open>Pickled\<close> has the member
  \<open>__setstate__\<close>, and reading it from a value constructed with 42 raises
  \<open>AttributeError\<close>. The struct \<open>Shadow\<close> has members named \<open>_values\<close>, \<open>_members\<close>,
  \<open>get_scope_path\<close> and \<open>__class__\<close>; reading them from a value constructed with 1, 2, 3
  and 4 finds the value's own dictionary, the class attribute, the method and the
  object's class instead. And reading \<open>_members\<close> from a value of \<open>Point\<close>, which has no
  such member, returns the dictionary of member types instead of failing.
\<close>

theorem member_read_counterexample:
  "UserStruct_init store_Pickled 2 [(''__setstate__'', 42 :: int)] = Inr value_Pickled
   \<and> member_names store_Pickled 2 = Some [''__setstate__'']
   \<and> od_getitem [(''__setstate__'', 42 :: int)] ''__setstate__'' = Inr 42
   \<and> py_getattr (set object_attrs) store_Pickled value_Pickled ''__setstate__''
       = Inl (AttributeError ''__setstate__'')
   \<and> UserStruct_init store_Shadow 2 (inst_values value_Shadow) = Inr value_Shadow
   \<and> member_names store_Shadow 2
       = Some [''_values'', ''_members'', ''get_scope_path'', ''__class__'']
   \<and> od_getitem (inst_values value_Shadow) ''_values'' = Inr 1
   \<and> py_getattr (set object_attrs) store_Shadow value_Shadow ''_values''
       = Inr (ValuesDict [(''_values'', 1), (''_members'', 2), (''get_scope_path'', 3),
                          (''__class__'', 4)])
   \<and> py_getattr (set object_attrs) store_Shadow value_Shadow ''_members''
       = Inr (MembersDict [(''_values'', ''longint''), (''_members'', ''longint''),
                           (''get_scope_path'', ''longint''), (''__class__'', ''longint'')])
   \<and> py_getattr (set object_attrs) store_Shadow value_Shadow ''get_scope_path''
       = Inr (Method ''get_scope_path'')
   \<and> py_getattr (set object_attrs) store_Shadow value_Shadow ''__class__''
       = Inr (Builtin ''__class__'')
   \<and> member_names store_Point 3 = Some [''x'', ''y'']
   \<and> py_getattr (set object_attrs) store_Point
         \<lparr>inst_class = 3, inst_values = [(''x'', 3 :: int), (''y'', 4)]\<rparr> ''_members''
       = Inr (MembersDict [(''x'', ''longint''), (''y'', ''longint'')])"
proof -
  have p1: "UserStruct_init store_Pickled 2 [(''__setstate__'', 42 :: int)] = Inr value_Pickled"
    by (simp add: store_Pickled_eq UserStruct_init_def cls_getattr_def od_keys_def
        value_Pickled_def)
  have p2: "member_names store_Pickled 2 = Some [''__setstate__'']"
    by (simp add: store_Pickled_eq member_names_def cls_getattr_def od_keys_def)
  have p3: "od_getitem [(''__setstate__'', 42 :: int)] ''__setstate__'' = Inr 42"
    by (simp add: od_getitem_def)
  have p4: "py_getattr (set object_attrs) store_Pickled value_Pickled ''__setstate__''
       = Inl (AttributeError ''__setstate__'')"
    by (simp add: py_getattr_def object_getattribute_def store_Pickled_eq value_Pickled_def
        cls_dict_def UserStruct_methods_def object_attrs_def UserStruct_cls_def object_cls_def
        UserStruct_id_def UserStruct_getattr_def)
  have s1: "UserStruct_init store_Shadow 2 (inst_values value_Shadow) = Inr value_Shadow"
    by (simp add: store_Shadow_eq UserStruct_init_def cls_getattr_def od_keys_def
        value_Shadow_def)
  have s2: "member_names store_Shadow 2
       = Some [''_values'', ''_members'', ''get_scope_path'', ''__class__'']"
    by (simp add: store_Shadow_eq member_names_def cls_getattr_def od_keys_def)
  have s3: "od_getitem (inst_values value_Shadow) ''_values'' = Inr 1"
    by (simp add: od_getitem_def value_Shadow_def)
  have s4: "py_getattr (set object_attrs) store_Shadow value_Shadow ''_values''
       = Inr (ValuesDict [(''_values'', 1), (''_members'', 2), (''get_scope_path'', 3),
                          (''__class__'', 4)])"
    by (simp add: py_getattr_def object_getattribute_def value_Shadow_def)
  have s5: "py_getattr (set object_attrs) store_Shadow value_Shadow ''_members''
       = Inr (MembersDict [(''_values'', ''longint''), (''_members'', ''longint''),
                           (''get_scope_path'', ''longint''), (''__class__'', ''longint'')])"
    by (simp add: py_getattr_def object_getattribute_def store_Shadow_eq value_Shadow_def
        cls_dict_def)
  have s6: "py_getattr (set object_attrs) store_Shadow value_Shadow ''get_scope_path''
       = Inr (Method ''get_scope_path'')"
    by (simp add: py_getattr_def object_getattribute_def store_Shadow_eq value_Shadow_def
        cls_dict_def UserStruct_methods_def UserStruct_id_def)
  have s7: "py_getattr (set object_attrs) store_Shadow value_Shadow ''__class__''
       = Inr (Builtin ''__class__'')"
    by (simp add: py_getattr_def object_getattribute_def store_Shadow_eq value_Shadow_def
        cls_dict_def UserStruct_methods_def UserStruct_id_def object_attrs_def)
  have n1: "member_names store_Point 3 = Some [''x'', ''y'']"
    by (simp add: store_Point_eq member_names_def cls_getattr_def od_keys_def)
  have n2: "py_getattr (set object_attrs) store_Point
         \<lparr>inst_class = 3, inst_values = [(''x'', 3 :: int), (''y'', 4)]\<rparr> ''_members''
       = Inr (MembersDict [(''x'', ''longint''), (''y'', ''longint'')])"
    by (simp add: py_getattr_def object_getattribute_def store_Point_eq cls_dict_def)
  show ?thesis
    by (intro conjI) (fact p1 p2 p3 p4 s1 s2 s3 s4 s5 s6 s7 n1 n2)+
qed

text \<open>
  C6, amended. For a value constructed by \<open>__init__\<close> from the values \<open>V\<close>, and a name
  that the normal lookup does not find (not \<open>_values\<close>, \<open>_members\<close>, \<open>_is_abstract\<close>,
  \<open>_parent_scope\<close>, a method of \<open>UserStruct\<close> or an attribute from the runtime): the
  attribute read of a member name other than \<open>__setstate__\<close> returns \<open>V[name]\<close>, and the
  attribute read of a name that is not a member name raises \<open>AttributeError\<close>.
\<close>

theorem member_read_roundtrip_unshadowed:
  assumes "UserStruct_init st D V = Inr sv"
  shows "\<exists>names. member_names st D = Some names
           \<and> (\<forall>name. name \<in> set names \<and> name \<noteq> ''__setstate__''
                   \<and> name \<notin> set shadowing_names \<and> name \<notin> runtime \<longrightarrow>
                 (\<exists>v. od_getitem V name = Inr v
                    \<and> py_getattr runtime st sv name = Inr (MemberValue v)))
           \<and> (\<forall>name. name \<notin> set names
                   \<and> name \<notin> set shadowing_names \<and> name \<notin> runtime \<longrightarrow>
                 (\<exists>msg. py_getattr runtime st sv name = Inl (AttributeError msg)))"
proof -
  from getattr_hook_roundtrip [OF assms] obtain members where
    mem: "cls_getattr st D d_members = Some members"
    and rd: "\<And>name. name \<in> set (od_keys members) \<Longrightarrow> name \<noteq> ''__setstate__'' \<Longrightarrow>
                 UserStruct_getattr st sv name = od_getitem V name
                 \<and> (\<exists>v. od_getitem V name = Inr v)"
    and miss: "\<And>name. name \<notin> set (od_keys members) \<Longrightarrow>
                 (\<exists>msg. UserStruct_getattr st sv name = Inl (AttributeError msg))"
    by blast
  have names: "member_names st D = Some (od_keys members)"
    by (simp add: member_names_def mem)
  have hook: "py_getattr runtime st sv name
                = (case UserStruct_getattr st sv name of
                     Inl e \<Rightarrow> Inl e | Inr v \<Rightarrow> Inr (MemberValue v))"
    if "name \<notin> set shadowing_names" "name \<notin> runtime" for name
    using object_getattribute_unshadowed [OF that, of st sv] by (simp add: py_getattr_def)
  have a: "\<exists>v. od_getitem V name = Inr v \<and> py_getattr runtime st sv name = Inr (MemberValue v)"
    if "name \<in> set (od_keys members)" "name \<noteq> ''__setstate__''"
      "name \<notin> set shadowing_names" "name \<notin> runtime" for name
  proof -
    from rd [OF that(1,2)] obtain v where
      "UserStruct_getattr st sv name = Inr v" "od_getitem V name = Inr v" by auto
    with hook [OF that(3,4)] show ?thesis by simp
  qed
  have b: "\<exists>msg. py_getattr runtime st sv name = Inl (AttributeError msg)"
    if "name \<notin> set (od_keys members)" "name \<notin> set shadowing_names" "name \<notin> runtime"
    for name
  proof -
    from miss [OF that(1)] obtain msg where
      "UserStruct_getattr st sv name = Inl (AttributeError msg)" by blast
    with hook [OF that(2,3)] show ?thesis by simp
  qed
  from names a b show ?thesis by simp
qed

theorem member_read_roundtrip_unshadowed_witness:
  "UserStruct_init store_Point 3 [(''x'', 3 :: int), (''y'', 4)]
     = Inr \<lparr>inst_class = 3, inst_values = [(''x'', 3), (''y'', 4)]\<rparr>
   \<and> member_names store_Point 3 = Some [''x'', ''y'']
   \<and> ''x'' \<notin> set shadowing_names \<and> ''x'' \<notin> set object_attrs
   \<and> ''z'' \<notin> set shadowing_names \<and> ''z'' \<notin> set object_attrs
   \<and> (py_getattr (set object_attrs) store_Point
         \<lparr>inst_class = 3, inst_values = [(''x'', 3 :: int), (''y'', 4)]\<rparr> ''x''
        :: error + (string, int) py_attr) = Inr (MemberValue 3)
   \<and> (\<exists>msg. (py_getattr (set object_attrs) store_Point
                \<lparr>inst_class = 3, inst_values = [(''x'', 3 :: int), (''y'', 4)]\<rparr> ''z''
               :: error + (string, int) py_attr) = Inl (AttributeError msg))"
proof -
  let ?sv = "\<lparr>inst_class = 3, inst_values = [(''x'', 3 :: int), (''y'', 4)]\<rparr>"
  have h: "UserStruct_init store_Point 3 [(''x'', 3 :: int), (''y'', 4)] = Inr ?sv"
    by (simp add: store_Point_eq UserStruct_init_def cls_getattr_def od_keys_def)
  have n: "member_names store_Point 3 = Some [''x'', ''y'']"
    by (simp add: store_Point_eq member_names_def cls_getattr_def od_keys_def)
  have x: "''x'' \<notin> set shadowing_names" "''x'' \<notin> set object_attrs"
    by (simp_all add: shadowing_names_def UserStruct_methods_def object_attrs_def)
  have z: "''z'' \<notin> set shadowing_names" "''z'' \<notin> set object_attrs"
    by (simp_all add: shadowing_names_def UserStruct_methods_def object_attrs_def)
  from member_read_roundtrip_unshadowed [OF h, of "set object_attrs"] n
  have rd: "\<And>name. name \<in> set [''x'', ''y''] \<Longrightarrow> name \<noteq> ''__setstate__''
             \<Longrightarrow> name \<notin> set shadowing_names \<Longrightarrow> name \<notin> set object_attrs
             \<Longrightarrow> \<exists>v. od_getitem [(''x'', 3 :: int), (''y'', 4)] name = Inr v
                   \<and> py_getattr (set object_attrs) store_Point ?sv name = Inr (MemberValue v)"
    and miss: "\<And>name. name \<notin> set [''x'', ''y'']
             \<Longrightarrow> name \<notin> set shadowing_names \<Longrightarrow> name \<notin> set object_attrs
             \<Longrightarrow> \<exists>msg. py_getattr (set object_attrs) store_Point ?sv name
                         = Inl (AttributeError msg)"
    by auto
  from rd [of "''x''"] x
  have rx: "py_getattr (set object_attrs) store_Point ?sv ''x'' = Inr (MemberValue 3)"
    by (simp add: od_getitem_def)
  from miss [of "''z''"] z
  have rz: "\<exists>msg. py_getattr (set object_attrs) store_Point ?sv ''z''
                    = Inl (AttributeError msg)"
    by simp
  show ?thesis
    by (intro conjI) (fact h n x z rx rz)+
qed

text \<open>
  C7. The claim: \<open>get_scope_path\<close> is the empty string for every descriptor on which no
  parent scope was set. \<open>Point3D\<close> is derived from \<open>Point\<close>, which was declared in scope \<open>b\<close>
  inside scope \<open>a\<close>; no scope was set on \<open>Point3D\<close>, whose own dictionary has no
  \<open>_parent_scope\<close> entry, but \<open>get_parent_scope\<close> finds the entry of \<open>Point\<close> and
  \<open>get_scope_path\<close> answers \<open>a::b\<close>, and \<open>a#b\<close> with the separator \<open>#\<close>.
\<close>

theorem never_scoped_class_reports_scope_path:
  "define_new store_scoped 3 ''Point3D'' [(''z'', ''longint'')] False = (Inr 4, store_Point3D)
   \<and> d_parent_scope (store_Point3D ! 4) = None
   \<and> get_scope_path store_Point3D 4 default_scope_separator = ''a::b''
   \<and> get_scope_path store_Point3D 4 ''#'' = ''a#b''
   \<and> get_scope_path store_Point3D 4 default_scope_separator \<noteq> ''''"
proof -
  have own: "d_parent_scope (store_Point3D ! 4) = None"
    by (simp add: store_Point3D_eq)
  have sc: "get_parent_scope store_Point3D 4 = Some scope_b"
    by (simp add: store_Point3D_eq get_parent_scope_def cls_getattr_def)
  have path: "get_scope_path store_Point3D 4 sep = ''a'' @ sep @ ''b''" for sep
    by (simp add: get_scope_path_def sc scope_b_def scope_a_def scope_root_def)
  from define_Point3D own path [of default_scope_separator] path [of "''#''"]
  show ?thesis by (simp add: default_scope_separator_def)
qed

text \<open>
  C8. Whether \<open>define_new\<close> on a class \<open>B\<close> of a well-formed store succeeds or fails, the
  class object \<open>B\<close> is the same afterwards, and so are its \<open>_members\<close>, its \<open>_is_abstract\<close>
  and its parent scope as attribute lookup finds them; a failed call leaves the whole
  store as it was, and a successful one changes no class that was in it.
\<close>

theorem derive_leaves_base_unchanged:
  assumes "wf_store st" and "B < length st"
  shows "snd (define_new st B name M a) ! B = st ! B
         \<and> cls_getattr (snd (define_new st B name M a)) B d_members = cls_getattr st B d_members
         \<and> cls_getattr (snd (define_new st B name M a)) B d_is_abstract
             = cls_getattr st B d_is_abstract
         \<and> get_parent_scope (snd (define_new st B name M a)) B = get_parent_scope st B
         \<and> ((\<exists>e. fst (define_new st B name M a) = Inl e) \<longrightarrow> snd (define_new st B name M a) = st)
         \<and> take (length st) (snd (define_new st B name M a)) = st"
  using assms
  by (simp add: define_new_def get_parent_scope_def cls_getattr_append nth_append
      split: option.splits)

theorem derive_leaves_base_unchanged_witness:
  "wf_store store_scoped \<and> 3 < length store_scoped
   \<and> snd (define_new store_scoped 3 ''Point3D'' [(''z'', ''longint'')] False) = store_Point3D
   \<and> store_Point3D ! 3 = store_scoped ! 3
   \<and> cls_getattr store_Point3D 3 d_members = cls_getattr store_scoped 3 d_members
   \<and> cls_getattr store_Point3D 3 d_is_abstract = Some False
   \<and> get_parent_scope store_Point3D 3 = Some scope_b
   \<and> (\<exists>e. fst (define_new store_scoped 3 ''Q'' [(''x'', ''bit'')] True) = Inl e)
   \<and> snd (define_new store_scoped 3 ''Q'' [(''x'', ''bit'')] True) = store_scoped"
proof -
  have len: "3 < length store_scoped" by (simp add: store_scoped_eq)
  have run: "snd (define_new store_scoped 3 ''Point3D'' [(''z'', ''longint'')] False)
               = store_Point3D"
    by (simp add: define_Point3D)
  have abs: "cls_getattr store_scoped 3 d_is_abstract = Some False"
    by (simp add: store_scoped_eq cls_getattr_def)
  have sc: "get_parent_scope store_scoped 3 = Some scope_b"
    by (simp add: store_scoped_eq get_parent_scope_def cls_getattr_def)
  have fails: "\<exists>e. fst (define_new store_scoped 3 ''Q'' [(''x'', ''bit'')] True) = Inl e"
    by (simp add: store_scoped_eq define_new_def cls_getattr_def od_keys_def)
  from derive_leaves_base_unchanged [OF wf_store_scoped len,
      of "''Point3D''" "[(''z'', ''longint'')]" False] run abs sc
  have ok: "store_Point3D ! 3 = store_scoped ! 3
   \<and> cls_getattr store_Point3D 3 d_members = cls_getattr store_scoped 3 d_members
   \<and> cls_getattr store_Point3D 3 d_is_abstract = Some False
   \<and> get_parent_scope store_Point3D 3 = Some scope_b"
    by simp
  from derive_leaves_base_unchanged [OF wf_store_scoped len,
      of "''Q''" "[(''x'', ''bit'')]" True] fails
  have same: "snd (define_new store_scoped 3 ''Q'' [(''x'', ''bit'')] True) = store_scoped"
    by blast
  from wf_store_scoped len run ok fails same show ?thesis by blast
qed

text \<open>
  C9. On every struct value, \<open>__getattr__\<close> of the name \<open>__setstate__\<close> raises
  \<open>AttributeError\<close> (with the name as its message) whatever the stored values are, so no
  value is ever returned for that name.
\<close>

theorem read_setstate_always_fails:
  "UserStruct_getattr st self ''__setstate__'' = Inl (AttributeError ''__setstate__'')
   \<and> UserStruct_getattr st self ''__setstate__'' \<noteq> Inr v"
  by (simp add: UserStruct_getattr_def)

text \<open>
  C10. In a well-formed store, \<open>is_user_struct\<close> holds of an object if and only if the
  object is a class that is \<open>UserStruct\<close> or is derived from it through any number of
  bases; it is false of every struct value and of every object that is not a class.
\<close>

theorem user_struct_iff_derived:
  assumes "wf_store st" and "\<forall>c. t = PyClass c \<longrightarrow> c < length st"
  shows "(is_user_struct st t \<longleftrightarrow> (\<exists>c. t = PyClass c \<and> derives_from_UserStruct st c))
         \<and> \<not> is_user_struct st (PyStruct sv) \<and> \<not> is_user_struct st (PyOther x)"
proof (cases t)
  case (PyClass c)
  with assms(2) have c: "c < length st" by simp
  from subclass_derives [OF assms(1) c] derives_subclass [OF assms(1), of c] c
  have "UserStruct_id \<in> set (cls_mro (st ! c)) \<longleftrightarrow> derives_from_UserStruct st c" by blast
  with PyClass show ?thesis by (simp add: issubclass_def)
next
  case (PyStruct s)
  then show ?thesis by simp
next
  case (PyOther y)
  then show ?thesis by simp
qed

theorem user_struct_iff_derived_witness:
  "wf_store store_Point \<and> 3 < length store_Point \<and> 0 < length store_Point
   \<and> is_user_struct store_Point (PyClass 3 :: (int, int) py_object)
   \<and> derives_from_UserStruct store_Point 3
   \<and> \<not> is_user_struct store_Point (PyClass 0 :: (int, int) py_object)
   \<and> \<not> derives_from_UserStruct store_Point 0
   \<and> \<not> is_user_struct store_Point
         (PyStruct \<lparr>inst_class = 3, inst_values = [(''x'', 3), (''y'', 4)]\<rparr> :: (int, int) py_object)
   \<and> \<not> is_user_struct store_Point (PyOther 7 :: (int, int) py_object)"
proof -
  have len: "length store_Point = 4" by (simp add: store_Point_eq)
  have h3: "\<forall>c. (PyClass 3 :: (int, int) py_object) = PyClass c \<longrightarrow> c < length store_Point"
    by (simp add: len)
  have h0: "\<forall>c. (PyClass 0 :: (int, int) py_object) = PyClass c \<longrightarrow> c < length store_Point"
    by (simp add: len)
  have yes: "is_user_struct store_Point (PyClass 3 :: (int, int) py_object)"
    by (simp add: store_Point_eq issubclass_def UserStruct_id_def)
  have no: "\<not> is_user_struct store_Point (PyClass 0 :: (int, int) py_object)"
    by (simp add: store_Point_eq issubclass_def UserStruct_id_def object_cls_def object_id_def)
  note at3 = user_struct_iff_derived [OF wf_store_Point h3,
      of "\<lparr>inst_class = 3, inst_values = [(''x'', 3), (''y'', 4)]\<rparr>" 7]
  note at0 = user_struct_iff_derived [OF wf_store_Point h0,
      of "\<lparr>inst_class = 3, inst_values = [(''x'', 3), (''y'', 4)]\<rparr>" 7]
  from at3 yes have d3: "derives_from_UserStruct store_Point 3" by simp
  from at0 no have d0: "\<not> derives_from_UserStruct store_Point 0" by simp
  from at3 have rest: "\<not> is_user_struct store_Point
         (PyStruct \<lparr>inst_class = 3, inst_values = [(''x'', 3), (''y'', 4)]\<rparr> :: (int, int) py_object)
     \<and> \<not> is_user_struct store_Point (PyOther 7 :: (int, int) py_object)"
    by blast
  from wf_store_Point len yes d3 no d0 rest show ?thesis by simp
qed

end
